theory Spec2Isabelle
  imports Main "HOL-Library.Sublist"
begin

section \<open>Text\<close>

text \<open>
  A Python \<^verbatim>\<open>str\<close> is a sequence of Unicode code points. Both source variants
  (\<^verbatim>\<open>m4l.py\<close> and \<^verbatim>\<open>M4L2.py\<close>) pass titles, chapter numbers, URLs and
  response bodies around as \<^verbatim>\<open>str\<close>, so a string is modelled as the list of its code
  points. A literal of the source is written \<open>lit ''...''\<close>.
\<close>

type_synonym str = "nat list"

abbreviation (input) lit :: "string \<Rightarrow> str" where
  "lit s \<equiv> map of_char s"

text \<open>
  \<^verbatim>\<open>str.isspace\<close>, \<^verbatim>\<open>str.strip()\<close> and the class \<^verbatim>\<open>\s\<close> of \<^verbatim>\<open>re\<close> on a
  \<^verbatim>\<open>str\<close> pattern all use the same set of white-space code points.
\<close>

definition is_space :: "nat \<Rightarrow> bool" where
  "is_space c \<longleftrightarrow>
     (9 \<le> c \<and> c \<le> 13) \<or> (28 \<le> c \<and> c \<le> 32) \<or> c = 133 \<or> c = 160 \<or> c = 5760 \<or>
     (8192 \<le> c \<and> c \<le> 8202) \<or> c = 8232 \<or> c = 8233 \<or> c = 8239 \<or> c = 8287 \<or> c = 12288"

text \<open>
  Case conversion reads the Unicode character database, which is no part of the
  repository. The tables below are its entries for the ASCII range and for the two code
  points U+01F0 (LATIN SMALL LETTER J WITH CARON) and U+030C (COMBINING CARON):
  \<^verbatim>\<open>SpecialCasing.txt\<close> gives U+01F0 the upper-case and title-case mapping
  \<^verbatim>\<open>004A 030C\<close>, and U+030C is a non-spacing mark without case. Every other code
  point is left as it is, so statements that depend on case conversion are made for
  titles of ASCII characters only.
\<close>

definition is_cased :: "nat \<Rightarrow> bool" where
  "is_cased c \<longleftrightarrow> (65 \<le> c \<and> c \<le> 90) \<or> (97 \<le> c \<and> c \<le> 122) \<or> c = 496"

definition to_upper_full :: "nat \<Rightarrow> str" where
  "to_upper_full c =
     (if 97 \<le> c \<and> c \<le> 122 then [c - 32] else if c = 496 then [74, 780] else [c])"

definition to_title_full :: "nat \<Rightarrow> str" where
  "to_title_full c =
     (if 97 \<le> c \<and> c \<le> 122 then [c - 32] else if c = 496 then [74, 780] else [c])"

definition to_lower_full :: "nat \<Rightarrow> str" where
  "to_lower_full c = (if 65 \<le> c \<and> c \<le> 90 then [c + 32] else [c])"

text \<open>\<^verbatim>\<open>str.upper()\<close> maps every character with its full upper-case mapping.\<close>

definition py_upper :: "str \<Rightarrow> str" where
  "py_upper s = concat (map to_upper_full s)"

text \<open>
  \<^verbatim>\<open>str.title()\<close> (CPython, \<^verbatim>\<open>do_title\<close>): a character that follows a cased
  character of the input is lower-cased, every other character is title-cased.
\<close>

fun do_title :: "bool \<Rightarrow> str \<Rightarrow> str" where
  "do_title previous_is_cased [] = []"
| "do_title previous_is_cased (c # cs) =
     (if previous_is_cased then to_lower_full c else to_title_full c) @ do_title (is_cased c) cs"

definition py_title :: "str \<Rightarrow> str" where
  "py_title s = do_title False s"

text \<open>\<^verbatim>\<open>str.strip()\<close> without argument.\<close>

definition py_strip :: "str \<Rightarrow> str" where
  "py_strip s = rev (dropWhile is_space (rev (dropWhile is_space s)))"

text \<open>
  \<^verbatim>\<open>re.sub(r'\s+', '-', s)\<close>: every maximal run of white space is replaced by one
  hyphen (code point 45).
\<close>

function re_sub_ws :: "str \<Rightarrow> str" where
  "re_sub_ws [] = []"
| "re_sub_ws (c # cs) =
     (if is_space c then 45 # re_sub_ws (dropWhile is_space cs) else c # re_sub_ws cs)"
  by pat_completeness auto
termination
  by (relation "measure length") (auto simp: length_dropWhile_le le_imp_less_Suc)

section \<open>Naming\<close>

text \<open>
  \<^verbatim>\<open>MangaDownloader.__init__\<close>, first half: \<open>init_manga_name\<close> is the value stored in
  \<^verbatim>\<open>self.manga_name\<close> and \<open>slugify\<close> the value stored in
  \<^verbatim>\<open>self.formatted_manga_name\<close>.
\<close>

definition init_manga_name :: "str \<Rightarrow> bool \<Rightarrow> bool \<Rightarrow> str" where
  "init_manga_name manga_name uppercase edit =
     (if edit then manga_name
      else if uppercase then py_upper manga_name else py_title manga_name)"

definition slugify :: "str \<Rightarrow> bool \<Rightarrow> bool \<Rightarrow> str" where
  "slugify manga_name uppercase edit = re_sub_ws (init_manga_name manga_name uppercase edit)"

section \<open>Chapter numbers\<close>

text \<open>
  Exceptions are values: a function of the source that can raise returns \<open>error + 'a\<close>,
  with \<open>Inl\<close> for the exception that propagates out of it.
\<close>

datatype error = ValueError | KeyError | ZeroDivisionError | ClientError

text \<open>
  \<^verbatim>\<open>int(s)\<close> for a \<^verbatim>\<open>str\<close>: white space is stripped from both ends (the separators
  U+001C..U+001F are not accepted here), one sign may follow, and the rest must be decimal
  digits with single underscores allowed between two digits. Only the ASCII digits are
  modelled: a string with other Unicode decimal digits is reported as \<open>ValueError\<close>
  here although CPython parses it, and the interpreter's limit on the number of digits is
  left out.
\<close>

definition is_int_space :: "nat \<Rightarrow> bool" where
  "is_int_space c \<longleftrightarrow> is_space c \<and> \<not> (28 \<le> c \<and> c \<le> 31)"

definition is_digit :: "nat \<Rightarrow> bool" where
  "is_digit c \<longleftrightarrow> 48 \<le> c \<and> c \<le> 57"

fun digits_ok :: "str \<Rightarrow> bool" where
  "digits_ok [] = False"
| "digits_ok [c] = is_digit c"
| "digits_ok (c # d # cs) =
     (is_digit c \<and> (if d = 95 then digits_ok cs else digits_ok (d # cs)))"

definition digits_value :: "str \<Rightarrow> nat" where
  "digits_value ds = foldl (\<lambda>a c. 10 * a + (c - 48)) 0 (filter is_digit ds)"

definition py_int :: "str \<Rightarrow> error + int" where
  "py_int s =
     (let t = rev (dropWhile is_int_space (rev (dropWhile is_int_space s)));
          negative = (t \<noteq> [] \<and> hd t = 45);
          body = (if t \<noteq> [] \<and> (hd t = 45 \<or> hd t = 43) then tl t else t)
      in if digits_ok body
         then Inr (if negative then - int (digits_value body) else int (digits_value body))
         else Inl ValueError)"

text \<open>The decimal digits of a natural number, and the format \<^verbatim>\<open>{:0wd}\<close>.\<close>

fun dec_digits :: "nat \<Rightarrow> str" where
  "dec_digits n = (if n < 10 then [48 + n] else dec_digits (n div 10) @ [48 + n mod 10])"

declare dec_digits.simps [simp del]

definition format_0d :: "nat \<Rightarrow> int \<Rightarrow> str" where
  "format_0d width i =
     (let ds = dec_digits (nat \<bar>i\<bar>);
          sgn = (if i < 0 then [45] else [])
      in sgn @ replicate (width - length sgn - length ds) 48 @ ds)"

text \<open>\<^verbatim>\<open>s.split(sep)\<close> for a separator of one character.\<close>

fun split_on :: "nat \<Rightarrow> str \<Rightarrow> str list" where
  "split_on sep [] = [[]]"
| "split_on sep (c # cs) =
     (if c = sep then [] # split_on sep cs
      else (case split_on sep cs of [] \<Rightarrow> [[c]] | p # ps \<Rightarrow> (c # p) # ps))"

text \<open>
  \<^verbatim>\<open>format_chapter_number\<close>. Unpacking \<^verbatim>\<open>chapter_number.split('.')\<close> into two names
  raises \<open>ValueError\<close> unless there is exactly one dot (code point 46).
\<close>

definition format_chapter_number :: "str \<Rightarrow> error + str" where
  "format_chapter_number chapter_number =
     (if 46 \<in> set chapter_number
      then (case split_on 46 chapter_number of
              [integer_part, decimal_part] \<Rightarrow>
                (case py_int integer_part of
                   Inl e \<Rightarrow> Inl e
                 | Inr n \<Rightarrow> Inr (format_0d 4 n @ [46] @ decimal_part))
            | _ \<Rightarrow> Inl ValueError)
      else (case py_int chapter_number of
              Inl e \<Rightarrow> Inl e
            | Inr n \<Rightarrow> Inr (format_0d 4 n)))"

section \<open>The downloader object and its world\<close>

text \<open>
  A \<^verbatim>\<open>pathlib.Path\<close> is kept as the expression that built it: \<open>Path s\<close> for
  \<^verbatim>\<open>Path(s)\<close> and \<open>Div p s\<close> for \<^verbatim>\<open>p / s\<close>.
\<close>

datatype path = Path str | Div path str

fun parent :: "path \<Rightarrow> path" where
  "parent (Div p s) = p"
| "parent (Path s) = Path (lit ''.'')"

fun ancestors :: "path \<Rightarrow> path set" where
  "ancestors (Path s) = {Path s}"
| "ancestors (Div p s) = insert (Div p s) (ancestors p)"

record downloader =
  manga_name :: str
  formatted_manga_name :: str
  manga_folder :: path
  history_file :: path

text \<open>
  The answer to one \<^verbatim>\<open>session.get\<close>: either \<^verbatim>\<open>aiohttp.ClientError\<close> is raised or a
  response with a status and a body arrives. The remote side is a function from the
  requests made so far and the URL requested now to that answer, so it may answer the
  same URL differently at different times.
\<close>

datatype response = Raises_ClientError | Response nat str

type_synonym server = "str list \<Rightarrow> str \<Rightarrow> response"

text \<open>
  Everything outside the object that the methods read or change: the log of the URLs
  requested so far, the directories and files on disk (the history ledger is the file at
  \<open>history_file\<close>), the log of the page files written, the log of the calls of the
  progress bar, and the module-level variable \<^verbatim>\<open>total_chapters_pages\<close>. Directory
  creation and file writes are taken to succeed.
\<close>

record world =
  requests :: "str list"
  dirs :: "path set"
  files :: "path \<rightharpoonup> str"
  writes :: "path list"
  progress :: "(nat \<times> nat) list"
  total_chapters_pages :: nat

definition session_get :: "server \<Rightarrow> str \<Rightarrow> world \<Rightarrow> response \<times> world" where
  "session_get srv url w = (srv (requests w) url, w\<lparr>requests := requests w @ [url]\<rparr>)"

text \<open>\<^verbatim>\<open>p.mkdir(parents=True, exist_ok=True)\<close>.\<close>

definition mkdir :: "path \<Rightarrow> world \<Rightarrow> world" where
  "mkdir p w = w\<lparr>dirs := dirs w \<union> ancestors p\<rparr>"

definition write_file :: "path \<Rightarrow> str \<Rightarrow> world \<Rightarrow> world" where
  "write_file p content w = w\<lparr>files := (files w)(p \<mapsto> content), writes := writes w @ [p]\<rparr>"

text \<open>\<^verbatim>\<open>MangaDownloader.__init__\<close>.\<close>

definition init :: "str \<Rightarrow> bool \<Rightarrow> bool \<Rightarrow> world \<Rightarrow> downloader \<times> world" where
  "init name uppercase edit w =
     (let self = \<lparr>manga_name = init_manga_name name uppercase edit,
                  formatted_manga_name = slugify name uppercase edit,
                  manga_folder = Div (Path (lit ''MANGA'')) (slugify name uppercase edit),
                  history_file = Path (lit ''download_history.txt'')\<rparr>
      in (self, mkdir (manga_folder self) w))"

section \<open>Addresses and the routing token\<close>

definition generate_image_url :: "downloader \<Rightarrow> str \<Rightarrow> nat \<Rightarrow> str \<Rightarrow> str" where
  "generate_image_url self chapter_number png_number manga_address =
     lit ''https://'' @ manga_address @ lit ''/manga/'' @ formatted_manga_name self @ [47] @
     chapter_number @ [45] @ format_0d 3 (int png_number) @ lit ''.png''"

definition viewer_url :: "downloader \<Rightarrow> str \<Rightarrow> str" where
  "viewer_url self formatted_chapter_number =
     lit ''https://manga4life.com/read-online/'' @ formatted_manga_name self @
     lit ''-chapter-'' @ formatted_chapter_number @ lit ''.html''"

definition viewer_url_index_2 :: "downloader \<Rightarrow> str \<Rightarrow> str" where
  "viewer_url_index_2 self formatted_chapter_number =
     lit ''https://manga4life.com/read-online/'' @ formatted_manga_name self @
     lit ''-chapter-'' @ formatted_chapter_number @ lit ''-index-2.html''"

text \<open>
  \<^verbatim>\<open>extract_text_from_html\<close>: the first match of
  \<^verbatim>\<open>vm\.CurPathName\s*=\s*"([^"]+)"\<close>. \<open>match_here\<close> tries the pattern at the start of
  its argument; 61 is the equals sign and 34 the double quote.
\<close>

definition match_here :: "str \<Rightarrow> str option" where
  "match_here s =
     (let name = lit ''vm.CurPathName'' in
      if take (length name) s = name
      then (case dropWhile is_space (drop (length name) s) of
              [] \<Rightarrow> None
            | e # r1 \<Rightarrow>
                if e = 61
                then (case dropWhile is_space r1 of
                        [] \<Rightarrow> None
                      | q # r2 \<Rightarrow>
                          if q = 34 \<and> takeWhile (\<lambda>c. c \<noteq> 34) r2 \<noteq> [] \<and>
                             dropWhile (\<lambda>c. c \<noteq> 34) r2 \<noteq> []
                          then Some (takeWhile (\<lambda>c. c \<noteq> 34) r2)
                          else None)
                else None)
      else None)"

fun extract_text_from_html :: "str \<Rightarrow> str option" where
  "extract_text_from_html [] = None"
| "extract_text_from_html (c # cs) =
     (case match_here (c # cs) of
        Some g \<Rightarrow> Some g
      | None \<Rightarrow> extract_text_from_html cs)"

text \<open>Truth value of an optional string in a condition: \<^verbatim>\<open>None\<close> and \<^verbatim>\<open>''\<close> are false.\<close>

definition truthy :: "str option \<Rightarrow> bool" where
  "truthy a = (case a of None \<Rightarrow> False | Some s \<Rightarrow> s \<noteq> [])"

text \<open>
  \<^verbatim>\<open>extract_text_from_url\<close>, the same in both variants up to logging. The alternate page
  is requested inside the branch for status 200 of the first response only; a
  \<^verbatim>\<open>ClientError\<close> of either request is caught and gives \<^verbatim>\<open>None\<close>.
\<close>

definition extract_text_from_url ::
  "server \<Rightarrow> downloader \<Rightarrow> str \<Rightarrow> world \<Rightarrow> (error + str option) \<times> world" where
  "extract_text_from_url srv self chapter_number w =
     (case format_chapter_number chapter_number of
        Inl e \<Rightarrow> (Inl e, w)
      | Inr formatted_chapter_number \<Rightarrow>
          (case session_get srv (viewer_url self formatted_chapter_number) w of
             (Raises_ClientError, w1) \<Rightarrow> (Inr None, w1)
           | (Response status html_content, w1) \<Rightarrow>
               if status = 200
               then (let manga_address = extract_text_from_html html_content in
                     if \<not> truthy manga_address
                     then (case session_get srv
                                  (viewer_url_index_2 self formatted_chapter_number) w1 of
                             (Raises_ClientError, w2) \<Rightarrow> (Inr None, w2)
                           | (Response alt_status alt_content, w2) \<Rightarrow>
                               if alt_status = 200
                               then (Inr (extract_text_from_html alt_content), w2)
                               else (Inr manga_address, w2))
                     else (Inr manga_address, w1))
               else (Inr None, w1)))"

section \<open>Counting pages\<close>

text \<open>
  The loop \<^verbatim>\<open>while True\<close> of \<^verbatim>\<open>count_pages_in_chapter\<close>. It ends at the first answer
  that is not 200; the request is outside any \<^verbatim>\<open>try\<close>, so a \<^verbatim>\<open>ClientError\<close>
  propagates. A remote side that answers 200 for ever makes it run for ever, which is the
  value \<open>None\<close>.
\<close>

partial_function (option) probe_pages ::
  "server \<Rightarrow> downloader \<Rightarrow> str \<Rightarrow> str \<Rightarrow> nat \<Rightarrow> nat \<Rightarrow> world \<Rightarrow> ((error + nat) \<times> world) option"
  where
  "probe_pages srv self chapter_number manga_address page_count png_number w =
     (let url = generate_image_url self chapter_number png_number manga_address;
          r = srv (requests w) url;
          w1 = w\<lparr>requests := requests w @ [url]\<rparr>
      in case r of
           Raises_ClientError \<Rightarrow> Some (Inl ClientError, w1)
         | Response status body \<Rightarrow>
             if status = 200
             then probe_pages srv self chapter_number manga_address (page_count + 1)
                    (png_number + 1) w1
             else Some (Inr page_count, w1))"

definition count_pages_in_chapter ::
  "server \<Rightarrow> downloader \<Rightarrow> str \<Rightarrow> world \<Rightarrow> ((error + nat) \<times> world) option" where
  "count_pages_in_chapter srv self chapter_number w =
     (case format_chapter_number chapter_number of
        Inl e \<Rightarrow> Some (Inl e, w)
      | Inr formatted_chapter_number \<Rightarrow>
          (case extract_text_from_url srv self formatted_chapter_number w of
             (Inl e, w1) \<Rightarrow> Some (Inl e, w1)
           | (Inr manga_address, w1) \<Rightarrow>
               (case manga_address of
                  None \<Rightarrow> Some (Inr 0, w1)
                | Some a \<Rightarrow>
                    if a \<noteq> [] then probe_pages srv self formatted_chapter_number a 0 1 w1
                    else Some (Inr 0, w1))))"

section \<open>Fetching pages\<close>

text \<open>
  \<^verbatim>\<open>download_image\<close>: a response with status 200 is written to \<open>path\<close> after its parent
  directory has been created; any other status and a \<^verbatim>\<open>ClientError\<close> give
  \<^verbatim>\<open>False\<close>.
\<close>

definition download_image :: "server \<Rightarrow> str \<Rightarrow> path \<Rightarrow> world \<Rightarrow> bool \<times> world" where
  "download_image srv url p w =
     (case session_get srv url w of
        (Raises_ClientError, w1) \<Rightarrow> (False, w1)
      | (Response status body, w1) \<Rightarrow>
          if status = 200 then (True, write_file p body (mkdir (parent p) w1))
          else (False, w1))"

text \<open>
  \<^verbatim>\<open>colorful_progress_bar\<close> of \<^verbatim>\<open>m4l.py\<close>. The quotient \<^verbatim>\<open>current / total\<close> (\<open>tot\<close> below) raises
  \<open>ZeroDivisionError\<close> for a total of zero, before anything is drawn. A call that
  returns is logged with the arguments it was given; \<open>filled_length\<close> is the number of
  filled cells it draws. The colour and the printed percentage are not modelled.
\<close>

definition filled_length :: "nat \<Rightarrow> nat \<Rightarrow> nat" where
  "filled_length current tot = (50 * min current tot) div tot"

definition colorful_progress_bar :: "nat \<Rightarrow> nat \<Rightarrow> world \<Rightarrow> (error + unit) \<times> world" where
  "colorful_progress_bar current tot w =
     (if tot = 0 then (Inl ZeroDivisionError, w)
      else (Inr (), w\<lparr>progress := progress w @ [(current, tot)]\<rparr>))"

text \<open>
  The loop \<^verbatim>\<open>for png_number in range(1, total_pages + 1)\<close> of
  \<^verbatim>\<open>download_chapter_images\<close> in \<^verbatim>\<open>m4l.py\<close>, over the list of the page numbers that
  are left.
\<close>

fun download_pages ::
  "server \<Rightarrow> downloader \<Rightarrow> str \<Rightarrow> str \<Rightarrow> path \<Rightarrow> nat \<Rightarrow> nat \<Rightarrow> nat list \<Rightarrow> world \<Rightarrow>
   (error + unit) \<times> world" where
  "download_pages srv self chapter_number manga_address chapter_folder total_pages
     chapter_index [] w = (Inr (), w)"
| "download_pages srv self chapter_number manga_address chapter_folder total_pages
     chapter_index (png_number # rest) w =
     (let url = generate_image_url self chapter_number png_number manga_address;
          image_path = Div chapter_folder (format_0d 3 (int png_number) @ lit ''.png'');
          d = download_image srv url image_path w
      in if fst d
         then (case colorful_progress_bar (chapter_index * total_pages + png_number)
                      (total_chapters_pages (snd d)) (snd d) of
                 (Inl e, w2) \<Rightarrow> (Inl e, w2)
               | (Inr u, w2) \<Rightarrow>
                   download_pages srv self chapter_number manga_address chapter_folder
                     total_pages chapter_index rest w2)
         else download_pages srv self chapter_number manga_address chapter_folder
                total_pages chapter_index rest (snd d))"

text \<open>\<^verbatim>\<open>download_chapter_images\<close> of \<^verbatim>\<open>m4l.py\<close>.\<close>

definition download_chapter_images ::
  "server \<Rightarrow> downloader \<Rightarrow> str \<Rightarrow> nat \<Rightarrow> nat \<Rightarrow> world \<Rightarrow> (error + bool) \<times> world" where
  "download_chapter_images srv self chapter_number total_pages chapter_index w =
     (case format_chapter_number chapter_number of
        Inl e \<Rightarrow> (Inl e, w)
      | Inr formatted_chapter_number \<Rightarrow>
          (case extract_text_from_url srv self formatted_chapter_number w of
             (Inl e, w1) \<Rightarrow> (Inl e, w1)
           | (Inr manga_address, w1) \<Rightarrow>
               (case manga_address of
                  None \<Rightarrow> (Inr False, w1)
                | Some a \<Rightarrow>
                    if a \<noteq> []
                    then (let chapter_folder =
                                Div (manga_folder self) (lit ''Chapter-'' @ formatted_chapter_number)
                          in case download_pages srv self formatted_chapter_number a
                                    chapter_folder total_pages chapter_index
                                    [1 ..< total_pages + 1] (mkdir chapter_folder w1) of
                               (Inl e, w2) \<Rightarrow> (Inl e, w2)
                             | (Inr u, w2) \<Rightarrow> (Inr True, w2))
                    else (Inr False, w1))))"



section \<open>The history ledger\<close>

text \<open>\<^verbatim>\<open>str.splitlines()\<close>; \<^verbatim>\<open>\r\n\<close> counts as one line boundary.\<close>

definition is_linebreak :: "nat \<Rightarrow> bool" where
  "is_linebreak c \<longleftrightarrow>
     c = 10 \<or> c = 11 \<or> c = 12 \<or> c = 13 \<or> c = 28 \<or> c = 29 \<or> c = 30 \<or> c = 133 \<or>
     c = 8232 \<or> c = 8233"

definition after_break :: "nat \<Rightarrow> str \<Rightarrow> str" where
  "after_break c cs = (if c = 13 \<and> cs \<noteq> [] \<and> hd cs = 10 then tl cs else cs)"

function splitlines :: "str \<Rightarrow> str list" where
  "splitlines [] = []"
| "splitlines (c # cs) =
     (if is_linebreak c then [] # splitlines (after_break c cs)
      else (case splitlines cs of [] \<Rightarrow> [[c]] | l # ls \<Rightarrow> (c # l) # ls))"
  by pat_completeness auto
termination
  by (relation "measure length") (auto simp: after_break_def)

text \<open>
  \<^verbatim>\<open>save_history\<close>, the same in both variants: the ledger is created empty if it does
  not exist, read, split into lines, and the name followed by a newline is appended
  unless it is one of the lines.
\<close>

definition save_history :: "downloader \<Rightarrow> str \<Rightarrow> world \<Rightarrow> world" where
  "save_history self name w =
     (let history = (case files w (history_file self) of None \<Rightarrow> [] | Some h \<Rightarrow> h);
          history_lines = splitlines history
      in if name \<notin> set history_lines
         then w\<lparr>files := (files w)(history_file self \<mapsto> history @ name @ [10])\<rparr>
         else w\<lparr>files := (files w)(history_file self \<mapsto> history)\<rparr>)"


section \<open>The batch\<close>

text \<open>
  \<^verbatim>\<open>download_chapters\<close> of \<^verbatim>\<open>m4l.py\<close> in its three parts: the counting loop, which
  fills the dictionary \<^verbatim>\<open>pages_per_chapter\<close> and the total; the confirmation; the
  loop over \<^verbatim>\<open>enumerate(chapters_to_download)\<close> with the final call of the progress
  bar and the ledger entry. \<open>user_input\<close> is the line that \<^verbatim>\<open>input\<close> returns.
\<close>

fun counting_loop ::
  "server \<Rightarrow> downloader \<Rightarrow> (str \<rightharpoonup> nat) \<Rightarrow> str list \<Rightarrow> world \<Rightarrow>
   ((error + (str \<rightharpoonup> nat)) \<times> world) option" where
  "counting_loop srv self pages_per_chapter [] w = Some (Inr pages_per_chapter, w)"
| "counting_loop srv self pages_per_chapter (chapter_number # rest) w =
     (case count_pages_in_chapter srv self chapter_number w of
        None \<Rightarrow> None
      | Some (Inl e, w1) \<Rightarrow> Some (Inl e, w1)
      | Some (Inr page_count, w1) \<Rightarrow>
          counting_loop srv self (pages_per_chapter(chapter_number \<mapsto> page_count)) rest
            (w1\<lparr>total_chapters_pages := total_chapters_pages w1 + page_count\<rparr>))"

fun fetch_loop ::
  "server \<Rightarrow> downloader \<Rightarrow> (str \<rightharpoonup> nat) \<Rightarrow> nat \<Rightarrow> str list \<Rightarrow> world \<Rightarrow>
   (error + unit) \<times> world" where
  "fetch_loop srv self pages_per_chapter chapter_index [] w = (Inr (), w)"
| "fetch_loop srv self pages_per_chapter chapter_index (chapter_number # rest) w =
     (case pages_per_chapter chapter_number of
        None \<Rightarrow> (Inl KeyError, w)
      | Some total_pages \<Rightarrow>
          (case download_chapter_images srv self chapter_number total_pages chapter_index w of
             (Inl e, w1) \<Rightarrow> (Inl e, w1)
           | (Inr b, w1) \<Rightarrow>
               fetch_loop srv self pages_per_chapter (chapter_index + 1) rest w1))"

definition confirmed :: "str \<Rightarrow> bool" where
  "confirmed user_input \<longleftrightarrow> py_upper (py_strip user_input) = lit ''Y''"

definition fetch_and_record ::
  "server \<Rightarrow> downloader \<Rightarrow> (str \<rightharpoonup> nat) \<Rightarrow> str list \<Rightarrow> world \<Rightarrow> (error + unit) \<times> world" where
  "fetch_and_record srv self pages_per_chapter chapters_to_download w =
     (case fetch_loop srv self pages_per_chapter 0 chapters_to_download w of
        (Inl e, w1) \<Rightarrow> (Inl e, w1)
      | (Inr u, w1) \<Rightarrow>
          (case colorful_progress_bar (total_chapters_pages w1) (total_chapters_pages w1) w1 of
             (Inl e, w2) \<Rightarrow> (Inl e, w2)
           | (Inr u, w2) \<Rightarrow> (Inr (), save_history self (manga_name self) w2)))"

definition download_chapters ::
  "server \<Rightarrow> downloader \<Rightarrow> str list \<Rightarrow> str \<Rightarrow> world \<Rightarrow> ((error + unit) \<times> world) option" where
  "download_chapters srv self chapters_to_download user_input w =
     (case counting_loop srv self Map.empty chapters_to_download
             (w\<lparr>total_chapters_pages := 0\<rparr>) of
        None \<Rightarrow> None
      | Some (Inl e, w1) \<Rightarrow> Some (Inl e, w1)
      | Some (Inr pages_per_chapter, w1) \<Rightarrow>
          if \<not> confirmed user_input then Some (Inr (), w1)
          else Some (fetch_and_record srv self pages_per_chapter chapters_to_download w1))"

text \<open>
  \<open>same_disk w w'\<close>: between the two worlds nothing was created or written on disk and
  the progress bar was not called; requests may have been made.
\<close>

definition same_disk :: "world \<Rightarrow> world \<Rightarrow> bool" where
  "same_disk w w' \<longleftrightarrow>
     dirs w' = dirs w \<and> files w' = files w \<and> writes w' = writes w \<and> progress w' = progress w"

section \<open>Example inputs\<close>

text \<open>Concrete worlds, downloaders and remote sides for the closed statements below.\<close>

definition w_empty :: world where
  "w_empty = \<lparr>requests = [], dirs = {}, files = Map.empty, writes = [], progress = [],
              total_chapters_pages = 0\<rparr>"

definition self_ex :: downloader where
  "self_ex = fst (init (lit ''one piece'') False False w_empty)"

definition token_page :: str where
  "token_page = lit ''vm.CurPathName = '' @ [34] @ lit ''host'' @ [34] @ lit '';''"


definition srv_two_pages :: server where
  "srv_two_pages history url =
     (if url = lit ''https://manga4life.com/read-online/One-Piece-chapter-0001.html''
      then Response 200 token_page
      else if url = lit ''https://host/manga/One-Piece/0001-001.png'' \<or>
              url = lit ''https://host/manga/One-Piece/0001-002.png''
      then Response 200 (lit ''png'')
      else Response 404 [])"



definition ledger_text :: "downloader \<Rightarrow> world \<Rightarrow> str" where
  "ledger_text self w = (case files w (history_file self) of None \<Rightarrow> [] | Some h \<Rightarrow> h)"





definition w_counted_two :: world where
  "w_counted_two = w_empty\<lparr>requests :=
     [lit ''https://manga4life.com/read-online/One-Piece-chapter-0001.html'',
      lit ''https://host/manga/One-Piece/0001-001.png'',
      lit ''https://host/manga/One-Piece/0001-002.png'',
      lit ''https://host/manga/One-Piece/0001-003.png''],
     total_chapters_pages := 2\<rparr>"





section \<open>Properties of the naming functions\<close>











subsection \<open>Title case\<close>







subsection \<open>Upper case\<close>











section \<open>The routing token resolver\<close>





lemma replicate_numeral: "replicate (numeral k) x = x # replicate (pred_numeral k) x"
  by (simp add: numeral_eq_Suc)

lemma format_1: "format_chapter_number (lit ''1'') = Inr (lit ''0001'')"
  by (simp add: format_chapter_number_def py_int_def is_int_space_def is_space_def is_digit_def
      digits_value_def format_0d_def dec_digits.simps Let_def replicate_numeral)

lemma self_ex_simps:
  "formatted_manga_name self_ex = lit ''One-Piece''"
  "manga_name self_ex = lit ''One Piece''"
  "manga_folder self_ex = Div (Path (lit ''MANGA'')) (lit ''One-Piece'')"
  "history_file self_ex = Path (lit ''download_history.txt'')"
  by (simp_all add: self_ex_def init_def Let_def slugify_def init_manga_name_def py_title_def
      to_title_full_def to_lower_full_def is_cased_def is_space_def)

lemma token_page_extract: "extract_text_from_html token_page = Some (lit ''host'')"
  by (simp add: token_page_def match_here_def is_space_def)


section \<open>The page prober\<close>

lemma probe_pages_prefix:
  assumes "\<forall>h i. n \<le> i \<and> i < n + k \<longrightarrow>
             (\<exists>body. srv h (generate_image_url self f i a) = Response 200 body)"
    and "\<forall>h. \<exists>st body. srv h (generate_image_url self f (n + k) a) = Response st body \<and> st \<noteq> 200"
  shows "probe_pages srv self f a c n w =
     Some (Inr (c + k),
       w\<lparr>requests := requests w @ map (\<lambda>i. generate_image_url self f i a) [n ..< n + k + 1]\<rparr>)"
  using assms
proof (induction k arbitrary: c n w)
  case 0
  from "0.prems"(2) obtain st body
    where "srv (requests w) (generate_image_url self f n a) = Response st body" "st \<noteq> 200"
    by force
  then show ?case
    by (subst probe_pages.simps) (simp add: Let_def)
next
  case (Suc k)
  from Suc.prems(1) obtain body
    where ok: "srv (requests w) (generate_image_url self f n a) = Response 200 body"
    by force
  let ?w1 = "w\<lparr>requests := requests w @ [generate_image_url self f n a]\<rparr>"
  have "probe_pages srv self f a (c + 1) (n + 1) ?w1 =
     Some (Inr (c + 1 + k),
       ?w1\<lparr>requests := requests ?w1 @
          map (\<lambda>i. generate_image_url self f i a) [n + 1 ..< n + 1 + k + 1]\<rparr>)"
  proof (rule Suc.IH)
    show "\<forall>h i. n + 1 \<le> i \<and> i < n + 1 + k \<longrightarrow>
             (\<exists>body. srv h (generate_image_url self f i a) = Response 200 body)"
      using Suc.prems(1) by simp
    show "\<forall>h. \<exists>st body. srv h (generate_image_url self f (n + 1 + k) a) = Response st body \<and>
             st \<noteq> 200"
      using Suc.prems(2) by simp
  qed
  moreover have "[n ..< n + Suc k + 1] = n # [n + 1 ..< n + 1 + k + 1]"
    by (simp add: upt_conv_Cons)
  ultimately show ?case
    using ok by (subst probe_pages.simps) (simp add: Let_def)
qed


lemma format_0001: "format_chapter_number (lit ''0001'') = Inr (lit ''0001'')"
  by (simp add: format_chapter_number_def py_int_def is_int_space_def is_space_def is_digit_def
      digits_value_def format_0d_def dec_digits.simps Let_def replicate_numeral)

lemma viewer_url_ex:
  "viewer_url self_ex (lit ''0001'') =
     lit ''https://manga4life.com/read-online/One-Piece-chapter-0001.html''"
  "viewer_url_index_2 self_ex (lit ''0001'') =
     lit ''https://manga4life.com/read-online/One-Piece-chapter-0001-index-2.html''"
  by (simp_all add: viewer_url_def viewer_url_index_2_def self_ex_simps)

lemma image_url_ex:
  "generate_image_url self_ex (lit ''0001'') 1 (lit ''host'') =
     lit ''https://host/manga/One-Piece/0001-001.png''"
  "generate_image_url self_ex (lit ''0001'') 2 (lit ''host'') =
     lit ''https://host/manga/One-Piece/0001-002.png''"
  "generate_image_url self_ex (lit ''0001'') 3 (lit ''host'') =
     lit ''https://host/manga/One-Piece/0001-003.png''"
  by (simp_all add: generate_image_url_def self_ex_simps format_0d_def dec_digits.simps Let_def
      replicate_numeral)



lemma two_pages_hit:
  "1 \<le> i \<and> i \<le> 2 \<Longrightarrow>
   \<exists>body. srv_two_pages h (generate_image_url self_ex (lit ''0001'') i (lit ''host'')) =
     Response 200 body"
proof -
  assume "1 \<le> i \<and> i \<le> 2"
  then consider "i = 1" | "i = 2" by linarith
  then show ?thesis
    by cases (simp_all add: image_url_ex [simplified] srv_two_pages_def)
qed

lemma two_pages_miss:
  "\<exists>st body. srv_two_pages h (generate_image_url self_ex (lit ''0001'') (2 + 1) (lit ''host'')) =
     Response st body \<and> st \<noteq> 200"
  by (simp add: image_url_ex [simplified] srv_two_pages_def)

section \<open>What the counting pass leaves untouched\<close>

lemma same_disk_refl: "same_disk w w"
  by (simp add: same_disk_def)

lemma same_disk_trans: "same_disk w w1 \<Longrightarrow> same_disk w1 w2 \<Longrightarrow> same_disk w w2"
  by (simp add: same_disk_def)

lemma same_disk_requests: "same_disk w (w\<lparr>requests := rs\<rparr>)"
  by (simp add: same_disk_def)

lemma same_disk_total: "same_disk w (w\<lparr>total_chapters_pages := n\<rparr>)"
  by (simp add: same_disk_def)

lemma session_get_frame:
  "session_get srv url w = (r, w') \<Longrightarrow>
   same_disk w w' \<and> total_chapters_pages w' = total_chapters_pages w"
  by (auto simp: session_get_def same_disk_def)

lemma extract_text_from_url_frame:
  assumes "extract_text_from_url srv self chapter_number w = (r, w')"
  shows "same_disk w w' \<and> total_chapters_pages w' = total_chapters_pages w"
proof (cases "format_chapter_number chapter_number")
  case (Inl e)
  with assms show ?thesis by (simp add: extract_text_from_url_def same_disk_refl)
next
  case (Inr f)
  with assms show ?thesis
    by (auto simp: extract_text_from_url_def session_get_def same_disk_def Let_def
        split: response.splits if_splits)
qed

lemma probe_pages_frame:
  "probe_pages srv self chapter_number manga_address page_count png_number w = Some y \<Longrightarrow>
   same_disk w (snd y) \<and> total_chapters_pages (snd y) = total_chapters_pages w"
proof (induction rule: probe_pages.raw_induct [rotated 1, consumes 1, case_names step])
  case (step probe_pages' srv self chapter_number manga_address page_count png_number w y)
  let ?url = "generate_image_url self chapter_number png_number manga_address"
  let ?w1 = "w\<lparr>requests := requests w @ [?url]\<rparr>"
  show ?case
  proof (cases "srv (requests w) ?url")
    case Raises_ClientError
    with step.hyps show ?thesis by (auto simp: Let_def same_disk_def)
  next
    case (Response status body)
    show ?thesis
    proof (cases "status = 200")
      case True
      with Response step.hyps have "probe_pages' srv self chapter_number manga_address
          (page_count + 1) (png_number + 1) ?w1 = Some y"
        by (simp add: Let_def)
      from step.IH [OF this] show ?thesis by (simp add: same_disk_def)
    next
      case False
      with Response step.hyps show ?thesis by (auto simp: Let_def same_disk_def)
    qed
  qed
qed

lemma count_pages_in_chapter_frame:
  assumes "count_pages_in_chapter srv self chapter_number w = Some (r, w')"
  shows "same_disk w w' \<and> total_chapters_pages w' = total_chapters_pages w"
proof (cases "format_chapter_number chapter_number")
  case (Inl e)
  with assms show ?thesis by (simp add: count_pages_in_chapter_def same_disk_refl)
next
  case (Inr f)
  obtain r1 w1 where x: "extract_text_from_url srv self f w = (r1, w1)" by force
  note f1 = extract_text_from_url_frame [OF x]
  show ?thesis
  proof (cases r1)
    case (Inl e)
    with assms Inr x f1 show ?thesis by (simp add: count_pages_in_chapter_def)
  next
    case r1: (Inr manga_address)
    show ?thesis
    proof (cases "truthy manga_address")
      case False
      with assms Inr x r1 f1 show ?thesis
        by (auto simp: count_pages_in_chapter_def truthy_def split: option.splits if_splits)
    next
      case True
      then obtain a where a: "manga_address = Some a" "a \<noteq> []"
        by (auto simp: truthy_def split: option.splits)
      with assms Inr x r1 have "probe_pages srv self f a 0 1 w1 = Some (r, w')"
        by (simp add: count_pages_in_chapter_def)
      from probe_pages_frame [OF this] f1 show ?thesis
        by (simp add: same_disk_def)
    qed
  qed
qed

lemma counting_loop_frame:
  "counting_loop srv self pages_per_chapter chapters w = Some (r, w') \<Longrightarrow> same_disk w w'"
proof (induction chapters arbitrary: pages_per_chapter w)
  case Nil
  then show ?case by (simp add: same_disk_refl)
next
  case (Cons chapter_number rest)
  show ?case
  proof (cases "count_pages_in_chapter srv self chapter_number w")
    case None
    with Cons.prems show ?thesis by simp
  next
    case (Some y)
    obtain r1 w1 where y: "y = (r1, w1)" by force
    note f1 = count_pages_in_chapter_frame [OF Some [unfolded y]]
    show ?thesis
    proof (cases r1)
      case (Inl e)
      with Cons.prems Some y f1 show ?thesis by simp
    next
      case (Inr page_count)
      with Cons.prems Some y
      have "counting_loop srv self (pages_per_chapter(chapter_number \<mapsto> page_count)) rest
              (w1\<lparr>total_chapters_pages := total_chapters_pages w1 + page_count\<rparr>) = Some (r, w')"
        by simp
      from Cons.IH [OF this] f1 show ?thesis by (simp add: same_disk_def)
    qed
  qed
qed
section \<open>What the fetch pass does\<close>





section \<open>Properties of the history ledger\<close>






lemma ledger_text_save_history:
  "ledger_text self (save_history self name w) =
     (if name \<in> set (splitlines (ledger_text self w)) then ledger_text self w
      else ledger_text self w @ name @ [10])"
  by (simp add: save_history_def ledger_text_def Let_def)





section \<open>Chapters without pages in the fetch pass\<close>






section \<open>The page count in the fetch pass\<close>


lemma resolve_two_pages_any:
  "extract_text_from_url srv_two_pages self_ex (lit ''0001'') w =
     (Inr (Some (lit ''host'')),
      w\<lparr>requests := requests w @ [viewer_url self_ex (lit ''0001'')]\<rparr>)"
  by (simp add: extract_text_from_url_def format_0001 [simplified] session_get_def
      viewer_url_ex [simplified] srv_two_pages_def token_page_extract [simplified] truthy_def)

lemma download_image_two_pages:
  "download_image srv_two_pages (lit ''https://host/manga/One-Piece/0001-001.png'') p w =
     (True, write_file p (lit ''png'')
        (mkdir (parent p)
           (w\<lparr>requests := requests w @ [lit ''https://host/manga/One-Piece/0001-001.png'']\<rparr>)))"
  "download_image srv_two_pages (lit ''https://host/manga/One-Piece/0001-002.png'') p w =
     (True, write_file p (lit ''png'')
        (mkdir (parent p)
           (w\<lparr>requests := requests w @ [lit ''https://host/manga/One-Piece/0001-002.png'']\<rparr>)))"
  by (simp_all add: download_image_def session_get_def srv_two_pages_def)

lemma probe_two_pages:
  "probe_pages srv_two_pages self_ex (lit ''0001'') (lit ''host'') 0 1 w =
     Some (Inr 2, w\<lparr>requests := requests w @
       [lit ''https://host/manga/One-Piece/0001-001.png'',
        lit ''https://host/manga/One-Piece/0001-002.png'',
        lit ''https://host/manga/One-Piece/0001-003.png'']\<rparr>)"
proof -
  have l: "[1 ..< 1 + 2 + 1] = [1, 2, 3::nat]"
    by (simp add: upt_rec)
  have "probe_pages srv_two_pages self_ex (lit ''0001'') (lit ''host'') 0 1 w =
     Some (Inr (0 + 2), w\<lparr>requests := requests w @
       map (\<lambda>i. generate_image_url self_ex (lit ''0001'') i (lit ''host'')) [1 ..< 1 + 2 + 1]\<rparr>)"
  proof (rule probe_pages_prefix)
    show "\<forall>h i. 1 \<le> i \<and> i < 1 + 2 \<longrightarrow>
       (\<exists>body. srv_two_pages h (generate_image_url self_ex (lit ''0001'') i (lit ''host'')) =
          Response 200 body)"
      using two_pages_hit by simp
    have e: "1 + 2 = (2 + 1 :: nat)" by simp
    show "\<forall>h. \<exists>st body.
        srv_two_pages h (generate_image_url self_ex (lit ''0001'') (1 + 2) (lit ''host'')) =
          Response st body \<and> st \<noteq> 200"
      unfolding e using two_pages_miss by blast
  qed
  then show ?thesis
    unfolding l by (simp add: image_url_ex [simplified])
qed


section \<open>Declining at the confirmation\<close>

lemma download_chapters_declined:
  assumes "counting_loop srv self Map.empty chapters (w\<lparr>total_chapters_pages := 0\<rparr>) =
             Some (Inr pages_per_chapter, w1)"
    and "\<not> confirmed user_input"
  shows "download_chapters srv self chapters user_input w = Some (Inr (), w1)"
    and "same_disk w w1"
proof -
  show "download_chapters srv self chapters user_input w = Some (Inr (), w1)"
    using assms by (simp add: download_chapters_def)
  from counting_loop_frame [OF assms(1)] show "same_disk w w1"
    by (simp add: same_disk_def)
qed

text \<open>
  Claim C8, as amended. When the counting pass has come to the confirmation and the
  answer, stripped of surrounding white space and upper-cased, is not \<open>Y\<close>, the batch
  returns at once in the world the counting pass left: no request is made after the
  counting pass, no file is written, the ledger and every other file are unchanged, no
  directory is created and the progress bar is not called.
\<close>

theorem declined_batch_has_no_effect:
  assumes "counting_loop srv self Map.empty chapters (w\<lparr>total_chapters_pages := 0\<rparr>) =
             Some (Inr pages_per_chapter, w1)"
    and "py_upper (py_strip user_input) \<noteq> lit ''Y''"
  shows "download_chapters srv self chapters user_input w = Some (Inr (), w1) \<and>
         writes w1 = writes w \<and> files w1 = files w \<and> dirs w1 = dirs w \<and>
         progress w1 = progress w"
proof -
  from assms(2) have "\<not> confirmed user_input" by (simp add: confirmed_def)
  from download_chapters_declined [OF assms(1) this] show ?thesis
    by (simp add: same_disk_def)
qed

lemma count_two_pages:
  "count_pages_in_chapter srv_two_pages self_ex (lit ''1'') w =
     Some (Inr 2, w\<lparr>requests := requests w @
       [lit ''https://manga4life.com/read-online/One-Piece-chapter-0001.html'',
        lit ''https://host/manga/One-Piece/0001-001.png'',
        lit ''https://host/manga/One-Piece/0001-002.png'',
        lit ''https://host/manga/One-Piece/0001-003.png'']\<rparr>)"
  by (simp add: count_pages_in_chapter_def format_1 [simplified] resolve_two_pages_any [simplified]
      probe_two_pages [simplified] viewer_url_ex [simplified])

lemma counting_two_pages:
  "counting_loop srv_two_pages self_ex Map.empty [lit ''1''] (w_empty\<lparr>total_chapters_pages := 0\<rparr>) =
     Some (Inr [lit ''1'' \<mapsto> 2], w_counted_two)"
  by (simp add: count_two_pages [simplified] w_counted_two_def w_empty_def)

lemma writes_save_history: "writes (save_history self name w) = writes w"
  by (simp add: save_history_def Let_def)

lemma ledger_text_absent: "files w (history_file self) = None \<Longrightarrow> ledger_text self w = []"
  by (simp add: ledger_text_def)

lemma w_counted_two_simps:
  "total_chapters_pages w_counted_two = 2" "dirs w_counted_two = {}"
  "files w_counted_two = Map.empty" "writes w_counted_two = []" "progress w_counted_two = []"
  by (simp_all add: w_counted_two_def w_empty_def)

lemma confirmed_ex:
  "confirmed (lit '' y'')" "confirmed (lit ''Y'')" "\<not> confirmed (lit ''N'')"
  by (simp_all add: confirmed_def py_strip_def py_upper_def to_upper_full_def is_space_def)

lemma fetch_two_pages:
  "fetch_loop srv_two_pages self_ex [lit ''1'' \<mapsto> 2] 0 [lit ''1''] w_counted_two =
     (Inr (),
      w_counted_two\<lparr>
        requests := requests w_counted_two @
          [lit ''https://manga4life.com/read-online/One-Piece-chapter-0001.html'',
           lit ''https://host/manga/One-Piece/0001-001.png'',
           lit ''https://host/manga/One-Piece/0001-002.png''],
        dirs := ancestors (Div (manga_folder self_ex) (lit ''Chapter-0001'')),
        files := [Div (Div (manga_folder self_ex) (lit ''Chapter-0001'')) (lit ''001.png'') \<mapsto> lit ''png'',
                  Div (Div (manga_folder self_ex) (lit ''Chapter-0001'')) (lit ''002.png'') \<mapsto> lit ''png''],
        writes := [Div (Div (manga_folder self_ex) (lit ''Chapter-0001'')) (lit ''001.png''),
                   Div (Div (manga_folder self_ex) (lit ''Chapter-0001'')) (lit ''002.png'')],
        progress := [(1, 2), (2, 2)]\<rparr>)"
proof -
  have u: "[1 ..< 2 + 1] = [1, 2::nat]"
    by (simp add: upt_rec)
  have f: "format_0d 3 (int 1) = lit ''001''" "format_0d 3 (int 2) = lit ''002''"
    by (simp_all add: format_0d_def dec_digits.simps Let_def replicate_numeral)
  have "download_chapter_images srv_two_pages self_ex (lit ''1'') 2 0 w_counted_two =
     (Inr True,
      w_counted_two\<lparr>
        requests := requests w_counted_two @
          [lit ''https://manga4life.com/read-online/One-Piece-chapter-0001.html'',
           lit ''https://host/manga/One-Piece/0001-001.png'',
           lit ''https://host/manga/One-Piece/0001-002.png''],
        dirs := ancestors (Div (manga_folder self_ex) (lit ''Chapter-0001'')),
        files := [Div (Div (manga_folder self_ex) (lit ''Chapter-0001'')) (lit ''001.png'') \<mapsto> lit ''png'',
                  Div (Div (manga_folder self_ex) (lit ''Chapter-0001'')) (lit ''002.png'') \<mapsto> lit ''png''],
        writes := [Div (Div (manga_folder self_ex) (lit ''Chapter-0001'')) (lit ''001.png''),
                   Div (Div (manga_folder self_ex) (lit ''Chapter-0001'')) (lit ''002.png'')],
        progress := [(1, 2), (2, 2)]\<rparr>)"
    unfolding download_chapter_images_def u
    by (simp add: format_1 [simplified] resolve_two_pages_any [simplified] Let_def
        image_url_ex [simplified] viewer_url_ex [simplified] f [simplified]
        download_image_two_pages [simplified] write_file_def mkdir_def
        colorful_progress_bar_def w_counted_two_def w_empty_def)
  then show ?thesis by simp
qed

text \<open>
  The claim as stated fails for the answer \<open>y\<close> preceded by a blank, which is not the
  letter \<open>Y\<close> in either case: the batch proceeds, writes two page files and the ledger.
\<close>

theorem declined_batch_counterexample:
  "py_upper (lit '' y'') \<noteq> lit ''Y'' \<and>
   map_option (\<lambda>rw. (fst rw, writes (snd rw), ledger_text self_ex (snd rw)))
     (download_chapters srv_two_pages self_ex [lit ''1''] (lit '' y'') w_empty) =
   Some (Inr (),
     [Div (Div (manga_folder self_ex) (lit ''Chapter-0001'')) (lit ''001.png''),
      Div (Div (manga_folder self_ex) (lit ''Chapter-0001'')) (lit ''002.png'')],
     lit ''One Piece'' @ [10])"
proof -
  have 1: "py_upper (lit '' y'') \<noteq> lit ''Y''"
    by (simp add: py_upper_def to_upper_full_def)
  have "download_chapters srv_two_pages self_ex [lit ''1''] (lit '' y'') w_empty =
     Some (fetch_and_record srv_two_pages self_ex [lit ''1'' \<mapsto> 2] [lit ''1''] w_counted_two)"
    unfolding download_chapters_def counting_two_pages using confirmed_ex(1) by simp
  then have "map_option (\<lambda>rw. (fst rw, writes (snd rw), ledger_text self_ex (snd rw)))
     (download_chapters srv_two_pages self_ex [lit ''1''] (lit '' y'') w_empty) =
   Some (Inr (),
     [Div (Div (manga_folder self_ex) (lit ''Chapter-0001'')) (lit ''001.png''),
      Div (Div (manga_folder self_ex) (lit ''Chapter-0001'')) (lit ''002.png'')],
     lit ''One Piece'' @ [10])"
    by (simp add: fetch_and_record_def fetch_two_pages [simplified] colorful_progress_bar_def
        w_counted_two_simps ledger_text_save_history writes_save_history ledger_text_absent
        self_ex_simps)
  with 1 show ?thesis by blast
qed

theorem declined_batch_has_no_effect_witness:
  "counting_loop srv_two_pages self_ex Map.empty [lit ''1''] (w_empty\<lparr>total_chapters_pages := 0\<rparr>) =
     Some (Inr [lit ''1'' \<mapsto> 2], w_counted_two) \<and>
   py_upper (py_strip (lit ''N'')) \<noteq> lit ''Y'' \<and>
   download_chapters srv_two_pages self_ex [lit ''1''] (lit ''N'') w_empty = Some (Inr (), w_counted_two) \<and>
   writes w_counted_two = writes w_empty \<and> files w_counted_two = files w_empty"
proof -
  have n: "py_upper (py_strip (lit ''N'')) \<noteq> lit ''Y''"
    using confirmed_ex(3) by (simp add: confirmed_def)
  from declined_batch_has_no_effect [OF counting_two_pages n] counting_two_pages n
  show ?thesis by blast
qed
section \<open>Exceptions that leave the batch\<close>










section \<open>The directory of the manga\<close>















section \<open>The values given to the progress bar\<close>

















end
